theory Spec2Isabelle
  imports Main
begin

section \<open>The beerPong HTTP service: throw submission and cup authorization\<close>

text \<open>
  The service has two request handlers, \<^verbatim>\<open>throwBallHandler\<close> and \<^verbatim>\<open>cupHandler\<close>
  (\<^verbatim>\<open>internal/api/handler.go\<close>), and two process-wide client handles,
  \<^verbatim>\<open>config.RedisClient\<close> and \<^verbatim>\<open>config.PermitClient\<close>. The handlers are embedded as
  functions that take the response writer, the request and the state of the process and
  its collaborators, and return them updated. Every early \<^verbatim>\<open>return\<close> of the Go code is a
  branch of the model; a nil handle is \<open>None\<close>.
\<close>

subsection \<open>Request bodies and JSON documents\<close>

text \<open>
  A JSON value as \<^verbatim>\<open>encoding/json\<close> scans it: the members of an object in document order,
  duplicate names kept; strings and member names already unquoted; a number as its literal.
\<close>

datatype json =
    JNull
  | JBool bool
  | JNumber string
  | JString string
  | JArray "json list"
  | JObject "(string \<times> json) list"

text \<open>
  The bytes \<^verbatim>\<open>io.ReadAll\<close> returns, as the decoder's syntax check sees them: either they
  are no JSON text (the empty body included), or they are the text of one JSON value.
\<close>

datatype payload = NotJSON | Document json

datatype read_error = ReadError string

text \<open>\<^verbatim>\<open>r.Body\<close>: a stream that either delivers all its bytes or fails while being read.\<close>

datatype ReadCloser = Delivers payload | Fails read_error

fun ReadAll :: "ReadCloser \<Rightarrow> read_error + payload" where
  "ReadAll (Delivers b) = Inr b"
| "ReadAll (Fails e) = Inl e"

text \<open>
  The request: its body, its headers and the route variables \<^verbatim>\<open>mux.Vars(r)\<close> that the
  router extracted from the path.
\<close>

record Request =
  Body :: ReadCloser
  Header :: "string \<rightharpoonup> string list"
  Vars :: "string \<rightharpoonup> string"

record BallRequest =
  UserID :: string
  Role :: string
  Action :: string
  Target :: string

text \<open>\<^verbatim>\<open>var req BallRequest\<close>: the zero value, every field the empty string.\<close>

definition zero_BallRequest :: BallRequest where
  "zero_BallRequest = \<lparr>UserID = [], Role = [], Action = [], Target = []\<rparr>"

subsection \<open>Decoding a document into a BallRequest\<close>

text \<open>
  \<^verbatim>\<open>json.Unmarshal(body, &req)\<close> for the struct above. The fields are all of type
  \<^verbatim>\<open>string\<close>, tagged \<^verbatim>\<open>user_id\<close>, \<^verbatim>\<open>role\<close>, \<^verbatim>\<open>action\<close>, \<^verbatim>\<open>target\<close>. The decoder
  \<^item> rejects a body that is no JSON text with a syntax error, before it stores anything;
  \<^item> matches a member name to a field by its tag, exactly or, failing that, after case
    folding;
  \<^item> stores a JSON string, leaves the field alone on \<^verbatim>\<open>null\<close>, and on a value of any
    other kind skips the member and remembers an \<^verbatim>\<open>UnmarshalTypeError\<close>;
  \<^item> keeps decoding after such an error and returns the first one at the end;
  \<^item> ignores members that match no field.
\<close>

datatype json_error =
    SyntaxError
  | UnmarshalTypeError string string  \<comment> \<open>\<^verbatim>\<open>Value\<close> (the JSON kind) and \<^verbatim>\<open>Field\<close>\<close>

datatype field = UserID_field | Role_field | Action_field | Target_field

fun tag :: "field \<Rightarrow> string" where
  "tag UserID_field = ''user_id''"
| "tag Role_field = ''role''"
| "tag Action_field = ''action''"
| "tag Target_field = ''target''"

definition struct_fields :: "field list" where
  "struct_fields = [UserID_field, Role_field, Action_field, Target_field]"

text \<open>
  Case folding of a member name, on its UTF-8 bytes: an ASCII lower-case letter becomes
  upper case, and the two non-ASCII runes whose fold class holds an ASCII letter, U+017F
  (long s, bytes C5 BF) and U+212A (Kelvin sign, bytes E2 84 AA), become \<open>S\<close> and \<open>K\<close>.
  Every other byte is kept: the tags are ASCII, so nothing else can fold onto one. An
  unquoted member name is valid UTF-8, where C5 and E2 occur as lead bytes only.
\<close>

definition toUpper :: "char \<Rightarrow> char" where
  "toUpper c =
     (let n = (of_char c :: nat) in if 97 \<le> n \<and> n \<le> 122 then char_of (n - 32) else c)"

function foldName :: "string \<Rightarrow> string" where
  "foldName [] = []"
| "foldName (c # cs) =
     (if c = CHR 0xC5 \<and> take 1 cs = [CHR 0xBF] then CHR ''S'' # foldName (drop 1 cs)
      else if c = CHR 0xE2 \<and> take 2 cs = [CHR 0x84, CHR 0xAA] then CHR ''K'' # foldName (drop 2 cs)
      else toUpper c # foldName cs)"
  by pat_completeness auto
termination
  by (relation "measure length") auto

definition field_by_name :: "string \<Rightarrow> field option" where
  "field_by_name key =
     (case find (\<lambda>f. tag f = key) struct_fields of
        Some f \<Rightarrow> Some f
      | None \<Rightarrow> find (\<lambda>f. foldName (tag f) = foldName key) struct_fields)"

fun store :: "field \<Rightarrow> string \<Rightarrow> BallRequest \<Rightarrow> BallRequest" where
  "store UserID_field v req = req\<lparr>UserID := v\<rparr>"
| "store Role_field v req = req\<lparr>Role := v\<rparr>"
| "store Action_field v req = req\<lparr>Action := v\<rparr>"
| "store Target_field v req = req\<lparr>Target := v\<rparr>"

fun kind :: "json \<Rightarrow> string" where
  "kind JNull = ''null''"
| "kind (JBool _) = ''bool''"
| "kind (JNumber _) = ''number''"
| "kind (JString _) = ''string''"
| "kind (JArray _) = ''array''"
| "kind (JObject _) = ''object''"

text \<open>The decoder keeps the first error it meets.\<close>

fun saveError :: "json_error \<Rightarrow> json_error option \<Rightarrow> json_error option" where
  "saveError e None = Some e"
| "saveError e (Some e0) = Some e0"

text \<open>One value into one string field.\<close>

fun literalStore :: "field \<Rightarrow> json \<Rightarrow> BallRequest \<times> json_error option \<Rightarrow> BallRequest \<times> json_error option" where
  "literalStore f (JString v) (req, err) = (store f v req, err)"
| "literalStore f JNull (req, err) = (req, err)"
| "literalStore f v (req, err) = (req, saveError (UnmarshalTypeError (kind v) (tag f)) err)"

text \<open>One member of the object.\<close>

definition object_member :: "string \<times> json \<Rightarrow> BallRequest \<times> json_error option \<Rightarrow> BallRequest \<times> json_error option" where
  "object_member m acc =
     (case field_by_name (fst m) of
        None \<Rightarrow> acc
      | Some f \<Rightarrow> literalStore f (snd m) acc)"

text \<open>
  The whole call: the struct as the decoder leaves it, and the error it returns. At the
  top level \<^verbatim>\<open>null\<close> changes nothing and is no error; any value that is neither
  \<^verbatim>\<open>null\<close> nor an object is a type error.
\<close>

fun Unmarshal :: "payload \<Rightarrow> BallRequest \<Rightarrow> BallRequest \<times> json_error option" where
  "Unmarshal NotJSON req = (req, Some SyntaxError)"
| "Unmarshal (Document JNull) req = (req, None)"
| "Unmarshal (Document (JObject ms)) req = fold object_member ms (req, None)"
| "Unmarshal (Document v) req = (req, Some (UnmarshalTypeError (kind v) []))"

subsection \<open>The response writer\<close>

text \<open>
  What a handler has written: the status code once the header is out, and the writes to
  the body in order. \<^verbatim>\<open>http.Error\<close> prints its message as a line;
  \<^verbatim>\<open>json.NewEncoder(w).Encode\<close> is given a \<^verbatim>\<open>map[string]string\<close>, kept here as the
  entries of the map literal. Response headers other than the status are left out.
\<close>

datatype written = Fprintln string | Encode "(string \<times> string) list"

record ResponseWriter =
  wroteHeader :: "nat option"
  body :: "written list"

definition newResponseWriter :: ResponseWriter where
  "newResponseWriter = \<lparr>wroteHeader = None, body = []\<rparr>"

abbreviation StatusOK :: nat where "StatusOK \<equiv> 200"
abbreviation StatusAccepted :: nat where "StatusAccepted \<equiv> 202"
abbreviation StatusBadRequest :: nat where "StatusBadRequest \<equiv> 400"
abbreviation StatusForbidden :: nat where "StatusForbidden \<equiv> 403"
abbreviation StatusInternalServerError :: nat where "StatusInternalServerError \<equiv> 500"
abbreviation StatusServiceUnavailable :: nat where "StatusServiceUnavailable \<equiv> 503"

text \<open>The first \<^verbatim>\<open>WriteHeader\<close> fixes the status; a later one is ignored.\<close>

definition WriteHeader :: "nat \<Rightarrow> ResponseWriter \<Rightarrow> ResponseWriter" where
  "WriteHeader code w = (case wroteHeader w of None \<Rightarrow> w\<lparr>wroteHeader := Some code\<rparr> | Some _ \<Rightarrow> w)"

text \<open>A write to the body sends the header with status 200 if none was sent before.\<close>

definition Write :: "written \<Rightarrow> ResponseWriter \<Rightarrow> ResponseWriter" where
  "Write x w = (let w' = WriteHeader StatusOK w in w'\<lparr>body := body w' @ [x]\<rparr>)"

definition Error :: "ResponseWriter \<Rightarrow> string \<Rightarrow> nat \<Rightarrow> ResponseWriter" where
  "Error w msg code = Write (Fprintln msg) (WriteHeader code w)"

subsection \<open>Time\<close>

text \<open>\<^verbatim>\<open>time.Duration\<close> counts nanoseconds.\<close>

type_synonym Duration = int

definition Second :: Duration where "Second = 1000000000"
definition Minute :: Duration where "Minute = 60 * Second"

text \<open>
  A context as the handlers build it: \<^verbatim>\<open>context.Background()\<close>, or a parent context
  with a timeout. The handlers only construct contexts; when a call ends is decided by
  the collaborator it is made on.
\<close>

datatype Context = Background | WithTimeout Context Duration

subsection \<open>The cache client\<close>

text \<open>
  The key-value store behind \<^verbatim>\<open>config.RedisClient\<close>, with the interface the handler
  uses: \<^verbatim>\<open>Set(ctx, key, value, expiration)\<close>.
  \<^item> \<open>entries\<close> is what the server holds: for each key its value and expiry.
  \<^item> \<open>commands\<close> lists the calls the program has made on the client, one entry for each
    call of \<^verbatim>\<open>Set\<close>. How often the client puts the command of one call on the wire is
    not recorded: \<^verbatim>\<open>RedisInit\<close> leaves the retry limit of the client at its default, so
    within a single call the client may send a failing \<^verbatim>\<open>SET\<close> again.
  \<^item> \<open>fault\<close> is what is wrong with the connection, if anything. A call made while there
    is a fault returns the fault's error. Such a call may still have taken effect: the
    server can have applied the write although the client gave up waiting for the reply.
    Whether it did is part of the fault.
  With no fault the call binds the key to the value and its expiry, replacing what was
  there, and returns no error. The handler passes the background context.
\<close>

datatype redis_error = RedisError string

datatype redis_command = SET string string Duration

record redis_fault =
  returned :: redis_error
  applied :: bool

record redis_Client =
  entries :: "string \<rightharpoonup> string \<times> Duration"
  commands :: "redis_command list"
  fault :: "redis_fault option"

definition Set :: "redis_Client \<Rightarrow> Context \<Rightarrow> string \<Rightarrow> string \<Rightarrow> Duration \<Rightarrow> redis_Client \<times> redis_error option" where
  "Set c ctx key val expiration =
     (let c' = c\<lparr>commands := commands c @ [SET key val expiration]\<rparr>;
          stored = c'\<lparr>entries := (entries c)(key \<mapsto> (val, expiration))\<rparr>
      in case fault c of
           Some f \<Rightarrow> (if applied f then stored else c', Some (returned f))
         | None \<Rightarrow> (stored, None))"

subsection \<open>The policy-decision client\<close>

text \<open>
  The subject and the resource that the \<^verbatim>\<open>enforcement\<close> builders produce are determined
  by the builders' arguments: the user key and the assigned roles, and the string given
  to \<^verbatim>\<open>ResourceBuilder\<close>.
\<close>

record AssignedRole =
  RoleKey :: string
  Tenant :: string

record User =
  Key :: string
  Roles :: "AssignedRole list"

definition UserBuilder :: "string \<Rightarrow> User" where
  "UserBuilder k = \<lparr>Key = k, Roles = []\<rparr>"

definition WithRoles :: "AssignedRole list \<Rightarrow> User \<Rightarrow> User" where
  "WithRoles rs u = u\<lparr>Roles := rs\<rparr>"

datatype Resource = ResourceBuilder string

datatype permit_error = PermitError string

text \<open>
  \<^verbatim>\<open>Check(user, action, resource)\<close> takes no context. The client records each check it
  is asked for. \<open>pdp\<close> is what the call comes back with: the verdict of the decision
  service, or the error of a call that failed, which includes a call that the client
  gave up at the timeout of its own configuration.
\<close>

record check =
  subject :: User
  action :: string
  resource :: Resource

record permit_Client =
  pdp :: "check \<Rightarrow> bool \<times> permit_error option"
  checks :: "check list"

definition Check :: "permit_Client \<Rightarrow> User \<Rightarrow> string \<Rightarrow> Resource \<Rightarrow> permit_Client \<times> bool \<times> permit_error option" where
  "Check c u a r =
     (let q = \<lparr>subject = u, action = a, resource = r\<rparr> in
      (c\<lparr>checks := checks c @ [q]\<rparr>, pdp c q))"

subsection \<open>Process state and log\<close>

text \<open>One constructor for each \<^verbatim>\<open>log\<close> call of the handlers, with the values it prints.\<close>

datatype log_line =
    RawRequestBody payload
  | RedisNotInitialized
  | CheckingPermission string string string
  | RedisErrorLine redis_error
  | RedisSetNote string
  | RedisSetDone string string
  | BallThrown string string
  | PermitNotInitialized
  | CheckingPermitCheck User string

record world =
  RedisClient :: "redis_Client option"
  PermitClient :: "permit_Client option"
  logged :: "log_line list"

definition Println :: "log_line \<Rightarrow> world \<Rightarrow> world" where
  "Println l s = s\<lparr>logged := logged s @ [l]\<rparr>"

subsection \<open>throwBallHandler\<close>

definition throwBallHandler :: "ResponseWriter \<Rightarrow> Request \<Rightarrow> world \<Rightarrow> ResponseWriter \<times> world" where
  "throwBallHandler w r s =
     (case ReadAll (Body r) of
        Inl e \<Rightarrow> (Error w ''Failed to read request body'' StatusBadRequest, s)
      | Inr b \<Rightarrow>
         (let s1 = Println (RawRequestBody b) s;
              (req, err) = Unmarshal b zero_BallRequest
          in (case err of
               Some e \<Rightarrow> (Error w ''Invalid request payload'' StatusBadRequest, s1)
             | None \<Rightarrow>
                (if UserID req = [] \<or> Action req = [] \<or> Target req = []
                 then (Error w ''Missing request fields'' StatusBadRequest, s1)
                 else (case RedisClient s1 of
                   None \<Rightarrow>
                     (Error w ''Service unavailable'' StatusServiceUnavailable,
                      Println RedisNotInitialized s1)
                 | Some client \<Rightarrow>
                    (let s2 = Println (CheckingPermission (UserID req) (Action req) (Target req)) s1;
                         ctx = Background;
                         redisKey = ''ball:'' @ UserID req;
                         (client', err) = Set client ctx redisKey (Target req) (Minute * 5);
                         s3 = s2\<lparr>RedisClient := Some client'\<rparr>
                     in (case err of
                          Some e \<Rightarrow>
                            (Error w ''Internal server error'' StatusInternalServerError,
                             Println (RedisSetNote (Target req)) (Println (RedisErrorLine e) s3))
                        | None \<Rightarrow>
                           (let s4 = Println (RedisSetDone redisKey (Target req)) s3;
                                s5 = Println (BallThrown (UserID req) (Target req)) s4
                            in (Write (Encode [(''message'', ''Ball thrown!'')])
                                  (WriteHeader StatusAccepted w), s5)))))))))"

subsection \<open>cupHandler\<close>

text \<open>
  A handler either returns or panics; the server recovers a panic and drops the
  connection. The nil check on \<^verbatim>\<open>config.PermitClient\<close> writes the error response and has
  no \<^verbatim>\<open>return\<close>, so control goes on to the statements below it. \<^verbatim>\<open>Check\<close> has a pointer
  receiver and reads the client's fields: called on the nil handle it panics with a nil
  dereference. The context made by \<^verbatim>\<open>context.WithTimeout\<close> from the background
  context is bound to the blank identifier and \<^verbatim>\<open>Check\<close> is called without it.
\<close>

datatype panic = NilPointerDereference

datatype completion = Returned | Panicked panic

definition cupHandler :: "ResponseWriter \<Rightarrow> Request \<Rightarrow> world \<Rightarrow> completion \<times> ResponseWriter \<times> world" where
  "cupHandler w r s =
     (let (w1, s1) =
            (case PermitClient s of
               None \<Rightarrow>
                 (Error w ''Permit.io failed initialization'' StatusInternalServerError,
                  Println PermitNotInitialized s)
             | Some p \<Rightarrow> (w, s));
          vars = Vars r;
          cupID = (case vars ''cup_id'' of None \<Rightarrow> [] | Some v \<Rightarrow> v);
          req = zero_BallRequest;
          userID = WithRoles [\<lparr>RoleKey = ''user'', Tenant = []\<rparr>] (UserBuilder (UserID req));
          resource = ResourceBuilder cupID;
          action = ''beer'';
          blank = WithTimeout Background (10 * Second)
      in (case PermitClient s1 of
            None \<Rightarrow> (Panicked NilPointerDereference, w1, s1)
          | Some client \<Rightarrow>
             (let (client', allowed, err) = Check client userID ''beer'' resource;
                  s2 = s1\<lparr>PermitClient := Some client'\<rparr>
              in (case err of
                    Some e \<Rightarrow>
                      (Returned, Error w1 ''Permission check failed'' StatusInternalServerError, s2)
                  | None \<Rightarrow>
                     (let w2 = (if allowed
                                then Write (Encode [(''message'', ''Access granted!''), (''cup'', cupID)]) w1
                                else Error w1 ''Access denied!'' StatusForbidden);
                          s3 = Println (CheckingPermitCheck userID action) s2
                      in (Returned, w2, s3))))))"

subsection \<open>Bodies that differ only in the role\<close>

text \<open>
  A member of the body's object is a role member when the decoder stores it in the
  \<^verbatim>\<open>Role\<close> field. Two objects differ only in the role when they have the same members
  once the role members are taken out.
\<close>

definition role_member :: "string \<times> json \<Rightarrow> bool" where
  "role_member m = (field_by_name (fst m) = Some Role_field)"

definition without_role :: "(string \<times> json) list \<Rightarrow> (string \<times> json) list" where
  "without_role ms = filter (\<lambda>m. \<not> role_member m) ms"

fun string_or_null :: "json \<Rightarrow> bool" where
  "string_or_null (JString v) = True"
| "string_or_null JNull = True"
| "string_or_null v = False"

definition role_values :: "(string \<times> json) list \<Rightarrow> json list" where
  "role_values ms = map snd (filter role_member ms)"

subsection \<open>What throwBallHandler reads of the decoded body\<close>

text \<open>
  After \<^verbatim>\<open>json.Unmarshal\<close> the handler reads the error and the fields \<^verbatim>\<open>UserID\<close>,
  \<^verbatim>\<open>Action\<close> and \<^verbatim>\<open>Target\<close>; it has no occurrence of \<^verbatim>\<open>req.Role\<close>.
\<close>

definition required :: "BallRequest \<times> json_error option \<Rightarrow> (string \<times> string \<times> string) \<times> json_error option" where
  "required x = ((UserID (fst x), Action (fst x), Target (fst x)), snd x)"

subsection \<open>Example requests and collaborators\<close>

definition throw_body :: "string \<Rightarrow> json \<Rightarrow> string \<Rightarrow> string \<Rightarrow> (string \<times> json) list" where
  "throw_body u role a t =
     [(''user_id'', JString u), (''role'', role), (''action'', JString a), (''target'', JString t)]"

definition post_throw :: "payload \<Rightarrow> Request" where
  "post_throw b = \<lparr>Body = Delivers b, Header = Map.empty, Vars = Map.empty\<rparr>"

definition alice_cup3 :: Request where
  "alice_cup3 = post_throw (Document (JObject (throw_body ''alice'' (JString ''player'') ''throw'' ''cup3'')))"

definition alice_cup7 :: Request where
  "alice_cup7 = post_throw (Document (JObject (throw_body ''alice'' (JString ''player'') ''throw'' ''cup7'')))"

definition alice_cup3_numeric_role :: Request where
  "alice_cup3_numeric_role = post_throw (Document (JObject (throw_body ''alice'' (JNumber ''5'') ''throw'' ''cup3'')))"

definition alice_cup3_no_role :: Request where
  "alice_cup3_no_role =
     post_throw (Document (JObject
       [(''user_id'', JString ''alice''), (''action'', JString ''throw''), (''target'', JString ''cup3'')]))"

definition no_target :: Request where
  "no_target = post_throw (Document (JObject [(''user_id'', JString ''alice''), (''action'', JString ''throw'')]))"

definition broken_body :: Request where
  "broken_body = \<lparr>Body = Fails (ReadError ''unexpected EOF''), Header = Map.empty, Vars = Map.empty\<rparr>"

definition get_cup3 :: Request where
  "get_cup3 = \<lparr>Body = Delivers NotJSON, Header = Map.empty, Vars = [''cup_id'' \<mapsto> ''cup3'']\<rparr>"

definition empty_cache :: redis_Client where
  "empty_cache = \<lparr>entries = Map.empty, commands = [], fault = None\<rparr>"

text \<open>A cache that refuses the connection, and one that applies the write but answers too late.\<close>

definition refusing_cache :: redis_Client where
  "refusing_cache =
     \<lparr>entries = Map.empty, commands = [],
      fault = Some \<lparr>returned = RedisError ''connection refused'', applied = False\<rparr>\<rparr>"

definition late_cache :: redis_Client where
  "late_cache =
     \<lparr>entries = Map.empty, commands = [],
      fault = Some \<lparr>returned = RedisError ''i/o timeout'', applied = True\<rparr>\<rparr>"

definition policy :: "bool \<times> permit_error option \<Rightarrow> permit_Client" where
  "policy answer = \<lparr>pdp = (\<lambda>q. answer), checks = []\<rparr>"

definition world_with :: "redis_Client option \<Rightarrow> permit_Client option \<Rightarrow> world" where
  "world_with rc pc = \<lparr>RedisClient = rc, PermitClient = pc, logged = []\<rparr>"

text \<open>The states after alice's first and second throw at an empty cache.\<close>

definition after_first_throw :: world where
  "after_first_throw =
     \<lparr>RedisClient = Some \<lparr>entries = [''ball:alice'' \<mapsto> (''cup3'', 300000000000)],
                            commands = [SET ''ball:alice'' ''cup3'' 300000000000],
                            fault = None\<rparr>,
      PermitClient = None,
      logged = [RawRequestBody (Document (JObject (throw_body ''alice'' (JString ''player'') ''throw'' ''cup3''))),
                CheckingPermission ''alice'' ''throw'' ''cup3'',
                RedisSetDone ''ball:alice'' ''cup3'',
                BallThrown ''alice'' ''cup3'']\<rparr>"

definition after_second_throw :: world where
  "after_second_throw =
     \<lparr>RedisClient = Some \<lparr>entries = [''ball:alice'' \<mapsto> (''cup7'', 300000000000)],
                            commands = [SET ''ball:alice'' ''cup3'' 300000000000,
                                        SET ''ball:alice'' ''cup7'' 300000000000],
                            fault = None\<rparr>,
      PermitClient = None,
      logged = logged after_first_throw @
               [RawRequestBody (Document (JObject (throw_body ''alice'' (JString ''player'') ''throw'' ''cup7''))),
                CheckingPermission ''alice'' ''throw'' ''cup7'',
                RedisSetDone ''ball:alice'' ''cup7'',
                BallThrown ''alice'' ''cup7'']\<rparr>"

section \<open>Properties\<close>

lemmas writer_defs = Error_def Write_def WriteHeader_def newResponseWriter_def
lemmas throw_defs = throwBallHandler_def Let_def Set_def Println_def
lemmas decode_defs = throw_body_def zero_BallRequest_def object_member_def field_by_name_def struct_fields_def
lemmas example_defs = alice_cup3_def alice_cup7_def post_throw_def world_with_def empty_cache_def
  refusing_cache_def late_cache_def

subsection \<open>Throw submission\<close>

text \<open>
  Claim C1. A throw request whose decoded body has a non-empty \<^verbatim>\<open>user_id\<close>, \<^verbatim>\<open>action\<close>
  and \<^verbatim>\<open>target\<close>, served with a cache client that is not nil and whose write succeeds,
  is answered with status 202 and the body \<^verbatim>\<open>{"message":"Ball thrown!"}\<close>. The client is
  asked for exactly one command, a \<^verbatim>\<open>SET\<close> of the key \<^verbatim>\<open>"ball:" + user_id\<close> to the target
  with an expiry of five minutes; afterwards that key holds the target, and every other
  key holds what it held before.
\<close>

theorem throw_accepted:
  assumes "ReadAll (Body r) = Inr b"
      and "Unmarshal b zero_BallRequest = (req, None)"
      and "UserID req \<noteq> []" and "Action req \<noteq> []" and "Target req \<noteq> []"
      and "RedisClient s = Some c"
      and "fault c = None"
      and "throwBallHandler newResponseWriter r s = (w', s')"
  shows "wroteHeader w' = Some StatusAccepted
       \<and> body w' = [Encode [(''message'', ''Ball thrown!'')]]
       \<and> (\<exists>c'. RedisClient s' = Some c'
            \<and> commands c' = commands c @ [SET (''ball:'' @ UserID req) (Target req) (5 * Minute)]
            \<and> entries c' (''ball:'' @ UserID req) = Some (Target req, 5 * Minute)
            \<and> (\<forall>k. k \<noteq> ''ball:'' @ UserID req \<longrightarrow> entries c' k = entries c k))"
  using assms
  by (auto simp: throw_defs writer_defs mult.commute)

theorem throw_accepted_witness:
  "ReadAll (Body alice_cup3) = Inr (Document (JObject (throw_body ''alice'' (JString ''player'') ''throw'' ''cup3'')))
   \<and> Unmarshal (Document (JObject (throw_body ''alice'' (JString ''player'') ''throw'' ''cup3''))) zero_BallRequest
       = (\<lparr>UserID = ''alice'', Role = ''player'', Action = ''throw'', Target = ''cup3''\<rparr>, None)
   \<and> fault empty_cache = None
   \<and> wroteHeader (fst (throwBallHandler newResponseWriter alice_cup3 (world_with (Some empty_cache) None))) = Some 202
   \<and> body (fst (throwBallHandler newResponseWriter alice_cup3 (world_with (Some empty_cache) None)))
        = [Encode [(''message'', ''Ball thrown!'')]]
   \<and> (\<exists>c'. RedisClient (snd (throwBallHandler newResponseWriter alice_cup3 (world_with (Some empty_cache) None))) = Some c'
         \<and> commands c' = [SET ''ball:alice'' ''cup3'' 300000000000]
         \<and> entries c' ''ball:alice'' = Some (''cup3'', 300000000000)
         \<and> (\<forall>k. k \<noteq> ''ball:alice'' \<longrightarrow> entries c' k = None))"
proof -
  let ?b = "Document (JObject (throw_body ''alice'' (JString ''player'') ''throw'' ''cup3''))"
  let ?req = "\<lparr>UserID = ''alice'', Role = ''player'', Action = ''throw'', Target = ''cup3''\<rparr>"
  let ?s = "world_with (Some empty_cache) None"
  have h1: "ReadAll (Body alice_cup3) = Inr ?b"
    by (simp add: example_defs)
  have h2: "Unmarshal ?b zero_BallRequest = (?req, None)"
    by (simp add: decode_defs)
  have h3: "RedisClient ?s = Some empty_cache"
    by (simp add: example_defs)
  have h4: "fault empty_cache = None"
    by (simp add: example_defs)
  have h5: "5 * Minute = 300000000000"
    by (simp add: Minute_def Second_def)
  from throw_accepted [OF h1 h2 _ _ _ h3 h4 surjective_pairing] h1 h2 h4 h5
  show ?thesis
    by (simp add: empty_cache_def)
qed

text \<open>
  Claim C2. A throw request whose body cannot be read, or does not decode (it is no JSON
  text, or a value has the wrong type), or decodes with an empty \<^verbatim>\<open>user_id\<close>, \<^verbatim>\<open>action\<close>
  or \<^verbatim>\<open>target\<close>, is answered with status 400, and both client handles and everything
  behind them are left as they were: no command reaches the cache.
\<close>

theorem throw_rejected:
  assumes "ReadAll (Body r) = Inl e
         \<or> (ReadAll (Body r) = Inr b \<and> Unmarshal b zero_BallRequest = (req, err)
             \<and> (err \<noteq> None \<or> UserID req = [] \<or> Action req = [] \<or> Target req = []))"
      and "throwBallHandler newResponseWriter r s = (w', s')"
  shows "wroteHeader w' = Some StatusBadRequest
       \<and> RedisClient s' = RedisClient s \<and> PermitClient s' = PermitClient s"
  using assms
  by (auto simp: throw_defs writer_defs split: option.splits)

theorem throw_rejected_witness:
  "ReadAll (Body broken_body) = Inl (ReadError ''unexpected EOF'')
   \<and> wroteHeader (fst (throwBallHandler newResponseWriter broken_body (world_with (Some empty_cache) None)))
        = Some 400
   \<and> RedisClient (snd (throwBallHandler newResponseWriter broken_body (world_with (Some empty_cache) None)))
        = Some empty_cache
   \<and> ReadAll (Body (post_throw NotJSON)) = Inr NotJSON
   \<and> Unmarshal NotJSON zero_BallRequest = (zero_BallRequest, Some SyntaxError)
   \<and> wroteHeader (fst (throwBallHandler newResponseWriter (post_throw NotJSON) (world_with (Some empty_cache) None)))
        = Some 400
   \<and> RedisClient (snd (throwBallHandler newResponseWriter (post_throw NotJSON) (world_with (Some empty_cache) None)))
        = Some empty_cache
   \<and> Unmarshal (Document (JObject [(''user_id'', JString ''alice''), (''action'', JString ''throw'')])) zero_BallRequest
        = (\<lparr>UserID = ''alice'', Role = [], Action = ''throw'', Target = []\<rparr>, None)
   \<and> wroteHeader (fst (throwBallHandler newResponseWriter no_target (world_with (Some empty_cache) None)))
        = Some 400
   \<and> RedisClient (snd (throwBallHandler newResponseWriter no_target (world_with (Some empty_cache) None)))
        = Some empty_cache"
proof -
  let ?s = "world_with (Some empty_cache) None"
  let ?b = "Document (JObject [(''user_id'', JString ''alice''), (''action'', JString ''throw'')])"
  let ?req = "\<lparr>UserID = ''alice'', Role = [], Action = ''throw'', Target = []\<rparr>"
  have s: "RedisClient ?s = Some empty_cache"
    by (simp add: world_with_def)
  have a: "ReadAll (Body broken_body) = Inl (ReadError ''unexpected EOF'')"
    by (simp add: broken_body_def)
  have b1: "ReadAll (Body (post_throw NotJSON)) = Inr NotJSON"
    by (simp add: post_throw_def)
  have b2: "Unmarshal NotJSON zero_BallRequest = (zero_BallRequest, Some SyntaxError)"
    by simp
  have c1: "ReadAll (Body no_target) = Inr ?b"
    by (simp add: no_target_def post_throw_def)
  have c2: "Unmarshal ?b zero_BallRequest = (?req, None)"
    by (simp add: decode_defs)
  have "wroteHeader (fst (throwBallHandler newResponseWriter broken_body ?s)) = Some 400
      \<and> RedisClient (snd (throwBallHandler newResponseWriter broken_body ?s)) = RedisClient ?s"
    using throw_rejected [of broken_body "ReadError ''unexpected EOF''" _ _ _ ?s, OF _ surjective_pairing] a
    by simp
  moreover
  have "wroteHeader (fst (throwBallHandler newResponseWriter (post_throw NotJSON) ?s)) = Some 400
      \<and> RedisClient (snd (throwBallHandler newResponseWriter (post_throw NotJSON) ?s)) = RedisClient ?s"
    using throw_rejected [of "post_throw NotJSON" _ NotJSON zero_BallRequest "Some SyntaxError" ?s,
        OF _ surjective_pairing] b1 b2
    by simp
  moreover
  have "wroteHeader (fst (throwBallHandler newResponseWriter no_target ?s)) = Some 400
      \<and> RedisClient (snd (throwBallHandler newResponseWriter no_target ?s)) = RedisClient ?s"
    using throw_rejected [of no_target _ ?b ?req None ?s, OF _ surjective_pairing] c1 c2
    by simp
  ultimately show ?thesis
    using a b1 b2 c2 s by simp
qed

text \<open>
  Claim C4. A throw request with non-empty \<^verbatim>\<open>user_id\<close>, \<^verbatim>\<open>action\<close> and \<^verbatim>\<open>target\<close>, served
  while the cache client handle is nil, is answered with status 503; the handle is still
  nil afterwards and the policy client is untouched.
\<close>

theorem throw_without_cache:
  assumes "ReadAll (Body r) = Inr b"
      and "Unmarshal b zero_BallRequest = (req, None)"
      and "UserID req \<noteq> []" and "Action req \<noteq> []" and "Target req \<noteq> []"
      and "RedisClient s = None"
      and "throwBallHandler newResponseWriter r s = (w', s')"
  shows "wroteHeader w' = Some StatusServiceUnavailable
       \<and> body w' = [Fprintln ''Service unavailable'']
       \<and> RedisClient s' = None \<and> PermitClient s' = PermitClient s"
  using assms
  by (auto simp: throw_defs writer_defs)

theorem throw_without_cache_witness:
  "ReadAll (Body alice_cup3) = Inr (Document (JObject (throw_body ''alice'' (JString ''player'') ''throw'' ''cup3'')))
   \<and> Unmarshal (Document (JObject (throw_body ''alice'' (JString ''player'') ''throw'' ''cup3''))) zero_BallRequest
       = (\<lparr>UserID = ''alice'', Role = ''player'', Action = ''throw'', Target = ''cup3''\<rparr>, None)
   \<and> wroteHeader (fst (throwBallHandler newResponseWriter alice_cup3 (world_with None None))) = Some 503
   \<and> RedisClient (snd (throwBallHandler newResponseWriter alice_cup3 (world_with None None))) = None
   \<and> PermitClient (snd (throwBallHandler newResponseWriter alice_cup3 (world_with None None))) = None"
proof -
  let ?b = "Document (JObject (throw_body ''alice'' (JString ''player'') ''throw'' ''cup3''))"
  let ?req = "\<lparr>UserID = ''alice'', Role = ''player'', Action = ''throw'', Target = ''cup3''\<rparr>"
  have h1: "ReadAll (Body alice_cup3) = Inr ?b"
    by (simp add: example_defs)
  have h2: "Unmarshal ?b zero_BallRequest = (?req, None)"
    by (simp add: decode_defs)
  have h3: "RedisClient (world_with None None) = None"
    by (simp add: world_with_def)
  from throw_without_cache [OF h1 h2 _ _ _ h3 surjective_pairing] h1 h2
  show ?thesis
    by (simp add: world_with_def)
qed

text \<open>
  Claim C7. A throw request with non-empty required fields and a cache client that is not
  nil, whose one call of \<^verbatim>\<open>Set\<close> returns an error, is answered with status 500. The
  handler made exactly that one call and no second one; the cache client is left exactly
  as the failed call left it, every key other than \<^verbatim>\<open>"ball:" + user_id\<close> holds what it
  held before, and the policy client is as before.
\<close>

theorem throw_write_fails:
  assumes "ReadAll (Body r) = Inr b"
      and "Unmarshal b zero_BallRequest = (req, None)"
      and "UserID req \<noteq> []" and "Action req \<noteq> []" and "Target req \<noteq> []"
      and "RedisClient s = Some c"
      and "Set c Background (''ball:'' @ UserID req) (Target req) (5 * Minute) = (c', Some e)"
      and "throwBallHandler newResponseWriter r s = (w', s')"
  shows "wroteHeader w' = Some StatusInternalServerError
       \<and> body w' = [Fprintln ''Internal server error'']
       \<and> RedisClient s' = Some c'
       \<and> commands c' = commands c @ [SET (''ball:'' @ UserID req) (Target req) (5 * Minute)]
       \<and> (\<forall>k. k \<noteq> ''ball:'' @ UserID req \<longrightarrow> entries c' k = entries c k)
       \<and> PermitClient s' = PermitClient s"
proof -
  from assms(7) have call: "Set c Background (''ball:'' @ UserID req) (Target req) (Minute * 5) = (c', Some e)"
    by (simp add: mult.commute)
  from assms(1-6) assms(8) call
  have "wroteHeader w' = Some StatusInternalServerError
      \<and> body w' = [Fprintln ''Internal server error'']
      \<and> RedisClient s' = Some c' \<and> PermitClient s' = PermitClient s"
    by (auto simp: throwBallHandler_def Let_def Println_def writer_defs)
  moreover
  from assms(7)
  have "commands c' = commands c @ [SET (''ball:'' @ UserID req) (Target req) (5 * Minute)]
      \<and> (\<forall>k. k \<noteq> ''ball:'' @ UserID req \<longrightarrow> entries c' k = entries c k)"
    by (auto simp: Set_def Let_def split: option.splits if_splits)
  ultimately show ?thesis
    by simp
qed

theorem throw_write_fails_witness:
  "ReadAll (Body alice_cup3) = Inr (Document (JObject (throw_body ''alice'' (JString ''player'') ''throw'' ''cup3'')))
   \<and> Unmarshal (Document (JObject (throw_body ''alice'' (JString ''player'') ''throw'' ''cup3''))) zero_BallRequest
       = (\<lparr>UserID = ''alice'', Role = ''player'', Action = ''throw'', Target = ''cup3''\<rparr>, None)
   \<and> Set refusing_cache Background ''ball:alice'' ''cup3'' (5 * Minute)
       = (refusing_cache\<lparr>commands := [SET ''ball:alice'' ''cup3'' 300000000000]\<rparr>,
          Some (RedisError ''connection refused''))
   \<and> wroteHeader (fst (throwBallHandler newResponseWriter alice_cup3 (world_with (Some refusing_cache) None)))
       = Some 500
   \<and> RedisClient (snd (throwBallHandler newResponseWriter alice_cup3 (world_with (Some refusing_cache) None)))
       = Some (refusing_cache\<lparr>commands := [SET ''ball:alice'' ''cup3'' 300000000000]\<rparr>)
   \<and> Set late_cache Background ''ball:alice'' ''cup3'' (5 * Minute)
       = (late_cache\<lparr>commands := [SET ''ball:alice'' ''cup3'' 300000000000],
                     entries := [''ball:alice'' \<mapsto> (''cup3'', 300000000000)]\<rparr>,
          Some (RedisError ''i/o timeout''))
   \<and> wroteHeader (fst (throwBallHandler newResponseWriter alice_cup3 (world_with (Some late_cache) None)))
       = Some 500
   \<and> RedisClient (snd (throwBallHandler newResponseWriter alice_cup3 (world_with (Some late_cache) None)))
       = Some (late_cache\<lparr>commands := [SET ''ball:alice'' ''cup3'' 300000000000],
                          entries := [''ball:alice'' \<mapsto> (''cup3'', 300000000000)]\<rparr>)"
proof -
  let ?b = "Document (JObject (throw_body ''alice'' (JString ''player'') ''throw'' ''cup3''))"
  let ?req = "\<lparr>UserID = ''alice'', Role = ''player'', Action = ''throw'', Target = ''cup3''\<rparr>"
  let ?refused = "refusing_cache\<lparr>commands := [SET ''ball:alice'' ''cup3'' 300000000000]\<rparr>"
  let ?late = "late_cache\<lparr>commands := [SET ''ball:alice'' ''cup3'' 300000000000],
                          entries := [''ball:alice'' \<mapsto> (''cup3'', 300000000000)]\<rparr>"
  have h1: "ReadAll (Body alice_cup3) = Inr ?b"
    by (simp add: example_defs)
  have h2: "Unmarshal ?b zero_BallRequest = (?req, None)"
    by (simp add: decode_defs)
  have h3: "RedisClient (world_with (Some x) None) = Some x" for x
    by (simp add: world_with_def)
  have m: "5 * Minute = 300000000000"
    by (simp add: Minute_def Second_def)
  have f1: "Set refusing_cache Background (''ball:'' @ UserID ?req) (Target ?req) (5 * Minute)
      = (?refused, Some (RedisError ''connection refused''))"
    by (simp add: Set_def Let_def refusing_cache_def m)
  have f2: "Set late_cache Background (''ball:'' @ UserID ?req) (Target ?req) (5 * Minute)
      = (?late, Some (RedisError ''i/o timeout''))"
    by (simp add: Set_def Let_def late_cache_def m)
  from throw_write_fails [OF h1 h2 _ _ _ h3 f1 surjective_pairing]
       throw_write_fails [OF h1 h2 _ _ _ h3 f2 surjective_pairing]
       h1 h2 f1 f2
  show ?thesis
    by simp
qed

text \<open>
  Claim C9. Two throw requests of the same \<^verbatim>\<open>user_id\<close>, served one after the other and
  both accepted with status 202, make the client send two \<^verbatim>\<open>SET\<close> commands on the same
  key \<^verbatim>\<open>"ball:" + user_id\<close>; afterwards the key holds the second request's target, and
  no other key has changed.
\<close>

theorem last_write_wins:
  assumes "ReadAll (Body r1) = Inr b1" and "Unmarshal b1 zero_BallRequest = (req1, None)"
      and "ReadAll (Body r2) = Inr b2" and "Unmarshal b2 zero_BallRequest = (req2, None)"
      and "UserID req1 = UserID req2"
      and "RedisClient s = Some c"
      and "throwBallHandler newResponseWriter r1 s = (w1, s1)"
      and "throwBallHandler newResponseWriter r2 s1 = (w2, s2)"
      and "wroteHeader w1 = Some StatusAccepted" and "wroteHeader w2 = Some StatusAccepted"
  shows "\<exists>c2. RedisClient s2 = Some c2
          \<and> commands c2 = commands c @ [SET (''ball:'' @ UserID req1) (Target req1) (5 * Minute),
                                        SET (''ball:'' @ UserID req1) (Target req2) (5 * Minute)]
          \<and> entries c2 (''ball:'' @ UserID req1) = Some (Target req2, 5 * Minute)
          \<and> (\<forall>k. k \<noteq> ''ball:'' @ UserID req1 \<longrightarrow> entries c2 k = entries c k)"
  using assms
  by (auto simp: throw_defs writer_defs mult.commute split: if_splits option.splits)

theorem last_write_wins_witness:
  "throwBallHandler newResponseWriter alice_cup3 (world_with (Some empty_cache) None)
     = (\<lparr>wroteHeader = Some 202, body = [Encode [(''message'', ''Ball thrown!'')]]\<rparr>, after_first_throw)
   \<and> throwBallHandler newResponseWriter alice_cup7 after_first_throw
     = (\<lparr>wroteHeader = Some 202, body = [Encode [(''message'', ''Ball thrown!'')]]\<rparr>, after_second_throw)
   \<and> (\<exists>c2. RedisClient after_second_throw = Some c2
         \<and> commands c2 = [SET ''ball:alice'' ''cup3'' 300000000000, SET ''ball:alice'' ''cup7'' 300000000000]
         \<and> entries c2 ''ball:alice'' = Some (''cup7'', 300000000000)
         \<and> (\<forall>k. k \<noteq> ''ball:alice'' \<longrightarrow> entries c2 k = None))"
proof -
  let ?b1 = "Document (JObject (throw_body ''alice'' (JString ''player'') ''throw'' ''cup3''))"
  let ?b2 = "Document (JObject (throw_body ''alice'' (JString ''player'') ''throw'' ''cup7''))"
  let ?req1 = "\<lparr>UserID = ''alice'', Role = ''player'', Action = ''throw'', Target = ''cup3''\<rparr>"
  let ?req2 = "\<lparr>UserID = ''alice'', Role = ''player'', Action = ''throw'', Target = ''cup7''\<rparr>"
  let ?s = "world_with (Some empty_cache) None"
  let ?w = "\<lparr>wroteHeader = Some 202, body = [Encode [(''message'', ''Ball thrown!'')]]\<rparr>"
  have r1: "ReadAll (Body alice_cup3) = Inr ?b1" and r2: "ReadAll (Body alice_cup7) = Inr ?b2"
    by (simp_all add: example_defs)
  have d1: "Unmarshal ?b1 zero_BallRequest = (?req1, None)"
    and d2: "Unmarshal ?b2 zero_BallRequest = (?req2, None)"
    by (simp_all add: decode_defs)
  have u: "UserID ?req1 = UserID ?req2"
    by simp
  have c: "RedisClient ?s = Some empty_cache"
    by (simp add: example_defs)
  have m: "Minute * 5 = 300000000000"
    by (simp add: Minute_def Second_def)
  have s1: "throwBallHandler newResponseWriter alice_cup3 ?s = (?w, after_first_throw)"
    by (simp add: throw_defs writer_defs example_defs decode_defs after_first_throw_def m)
  have s2: "throwBallHandler newResponseWriter alice_cup7 after_first_throw = (?w, after_second_throw)"
    by (simp add: throw_defs writer_defs example_defs decode_defs after_first_throw_def
        after_second_throw_def m)
  have m': "5 * Minute = 300000000000"
    by (simp add: Minute_def Second_def)
  from last_write_wins [OF r1 d1 r2 d2 u c s1 s2] s1 s2 m'
  show ?thesis
    by (simp add: empty_cache_def)
qed

subsection \<open>Bodies that differ only in the role\<close>

text \<open>A role member that holds a string or \<^verbatim>\<open>null\<close> changes only the \<^verbatim>\<open>Role\<close> field.\<close>

lemma role_member_skip:
  "role_member m \<Longrightarrow> string_or_null (snd m) \<Longrightarrow> required (object_member m a) = required a"
proof -
  assume rm: "role_member m" and sn: "string_or_null (snd m)"
  obtain q e where a: "a = (q, e)" by (cases a)
  from rm have f: "field_by_name (fst m) = Some Role_field"
    by (simp add: role_member_def)
  show ?thesis
  proof (cases "snd m")
    case JNull
    with f a show ?thesis by (simp add: object_member_def)
  next
    case (JString v)
    with f a show ?thesis by (simp add: object_member_def required_def)
  qed (use sn in simp_all)
qed

text \<open>
  Decoding one more member keeps two decoder states equal in what the handler reads, if
  they were so before.
\<close>

lemma literalStore_required:
  "required (q, e) = required (q', e') \<Longrightarrow>
   required (literalStore f v (q, e)) = required (literalStore f v (q', e'))"
  by (cases f; cases v) (simp_all add: required_def)

lemma object_member_required:
  "required a = required a' \<Longrightarrow> required (object_member m a) = required (object_member m a')"
proof -
  assume r: "required a = required a'"
  obtain q e q' e' where a: "a = (q, e)" "a' = (q', e')"
    by (cases a, cases a')
  show ?thesis
  proof (cases "field_by_name (fst m)")
    case None
    with r show ?thesis by (simp add: object_member_def)
  next
    case (Some f)
    with a r literalStore_required [of q e q' e' f "snd m"] show ?thesis
      by (simp add: object_member_def)
  qed
qed

text \<open>Hence the role members can be dropped from the object without changing what is read.\<close>

lemma fold_without_role:
  "list_all string_or_null (role_values ms) \<Longrightarrow> required a = required a' \<Longrightarrow>
   required (fold object_member ms a) = required (fold object_member (without_role ms) a')"
proof (induction ms arbitrary: a a')
  case Nil
  then show ?case by (simp add: without_role_def)
next
  case (Cons m ms)
  show ?case
  proof (cases "role_member m")
    case True
    with Cons.prems(1) have v: "string_or_null (snd m)" and rest: "list_all string_or_null (role_values ms)"
      by (simp_all add: role_values_def)
    from True v have "required (object_member m a) = required a"
      by (rule role_member_skip)
    with Cons.prems(2) have "required (object_member m a) = required a'"
      by simp
    from Cons.IH [OF rest this] True show ?thesis
      by (simp add: without_role_def)
  next
    case False
    with Cons.prems(1) have rest: "list_all string_or_null (role_values ms)"
      by (simp add: role_values_def)
    from Cons.prems(2) have "required (object_member m a) = required (object_member m a')"
      by (rule object_member_required)
    from Cons.IH [OF rest this] False show ?thesis
      by (simp add: without_role_def)
  qed
qed

text \<open>The response and the clients after a throw depend on the decoded body only through what is read.\<close>

lemma throw_reads_required:
  assumes "ReadAll (Body r1) = Inr b1" and "ReadAll (Body r2) = Inr b2"
      and "required (Unmarshal b1 zero_BallRequest) = required (Unmarshal b2 zero_BallRequest)"
  shows "fst (throwBallHandler w r1 s) = fst (throwBallHandler w r2 s)
       \<and> RedisClient (snd (throwBallHandler w r1 s)) = RedisClient (snd (throwBallHandler w r2 s))
       \<and> PermitClient (snd (throwBallHandler w r1 s)) = PermitClient (snd (throwBallHandler w r2 s))"
proof -
  obtain q1 e1 q2 e2 where u: "Unmarshal b1 zero_BallRequest = (q1, e1)" "Unmarshal b2 zero_BallRequest = (q2, e2)"
    by fastforce
  with assms(3) have "UserID q1 = UserID q2" "Action q1 = Action q2" "Target q1 = Target q2" "e1 = e2"
    by (simp_all add: required_def)
  with assms(1,2) u show ?thesis
    by (simp add: throw_defs split: option.splits)
qed

text \<open>Once the decoder has met an error it returns one, whatever members follow.\<close>

lemma literalStore_keeps_error:
  "e \<noteq> None \<Longrightarrow> snd (literalStore f v (q, e)) \<noteq> None"
  by (cases v) auto

lemma object_member_keeps_error:
  "snd a \<noteq> None \<Longrightarrow> snd (object_member m a) \<noteq> None"
proof -
  assume e: "snd a \<noteq> None"
  obtain q err where a: "a = (q, err)" by (cases a)
  with e have "err \<noteq> None" by simp
  then have "snd (literalStore f (snd m) (q, err)) \<noteq> None" for f
    by (rule literalStore_keeps_error)
  with a e show ?thesis
    by (simp add: object_member_def split: option.splits)
qed

lemma fold_keeps_error:
  "snd a \<noteq> None \<Longrightarrow> snd (fold object_member ms a) \<noteq> None"
proof (induction ms arbitrary: a)
  case Nil
  then show ?case by simp
next
  case (Cons m ms)
  from Cons.prems have "snd (object_member m a) \<noteq> None"
    by (rule object_member_keeps_error)
  then have "snd (fold object_member ms (object_member m a)) \<noteq> None"
    by (rule Cons.IH)
  then show ?case by simp
qed

text \<open>A role member that holds neither a string nor \<^verbatim>\<open>null\<close> is a type error.\<close>

lemma ill_typed_role_member:
  "role_member m \<Longrightarrow> \<not> string_or_null (snd m) \<Longrightarrow> snd (object_member m a) \<noteq> None"
proof -
  assume rm: "role_member m" and ill: "\<not> string_or_null (snd m)"
  obtain q err where a: "a = (q, err)" by (cases a)
  from rm have f: "field_by_name (fst m) = Some Role_field"
    by (simp add: role_member_def)
  from ill have "snd (literalStore Role_field (snd m) (q, err)) \<noteq> None"
    by (cases "snd m"; cases err) simp_all
  with a f show ?thesis
    by (simp add: object_member_def)
qed

lemma fold_ill_typed_role:
  "\<not> list_all string_or_null (role_values ms) \<Longrightarrow> snd (fold object_member ms a) \<noteq> None"
proof (induction ms arbitrary: a)
  case Nil
  then show ?case by (simp add: role_values_def)
next
  case (Cons m ms)
  show ?case
  proof (cases "role_member m \<and> \<not> string_or_null (snd m)")
    case True
    then have "snd (object_member m a) \<noteq> None"
      by (simp add: ill_typed_role_member)
    then have "snd (fold object_member ms (object_member m a)) \<noteq> None"
      by (rule fold_keeps_error)
    then show ?thesis by simp
  next
    case False
    with Cons.prems have "\<not> list_all string_or_null (role_values ms)"
      by (cases "role_member m") (simp_all add: role_values_def)
    then have "snd (fold object_member ms (object_member m a)) \<noteq> None"
      by (rule Cons.IH)
    then show ?thesis by simp
  qed
qed

text \<open>A body that does not decode is answered with status 400 and leaves both clients alone.\<close>

lemma throw_decode_error:
  assumes "ReadAll (Body r) = Inr b" and "snd (Unmarshal b zero_BallRequest) \<noteq> None"
  shows "fst (throwBallHandler newResponseWriter r s)
           = \<lparr>wroteHeader = Some StatusBadRequest, body = [Fprintln ''Invalid request payload'']\<rparr>
       \<and> RedisClient (snd (throwBallHandler newResponseWriter r s)) = RedisClient s
       \<and> PermitClient (snd (throwBallHandler newResponseWriter r s)) = PermitClient s"
proof -
  obtain q e where u: "Unmarshal b zero_BallRequest = (q, Some e)"
    using assms(2) by (cases "Unmarshal b zero_BallRequest") auto
  with assms(1) show ?thesis
    by (simp add: throwBallHandler_def Let_def Println_def writer_defs)
qed

text \<open>
  Claim C10, as amended. The role matters to a throw only through its JSON type.
  \<^item> Two throw requests whose bodies are JSON objects that differ only in their role
    members, where every role member holds a JSON string or \<^verbatim>\<open>null\<close> (or there is none),
    get the same status and response body, and leave the cache client and the policy
    client in the same state: the same command with the same key, value and expiry, or
    none.
  \<^item> A throw request whose body is a JSON object with a role member that holds a value
    of any other type is answered with status 400 and the message of a body that does
    not decode, and leaves the cache client and the policy client as they were.
\<close>

theorem throw_role_matters_only_by_type:
  "(Body r1 = Delivers (Document (JObject ms1))
    \<and> Body r2 = Delivers (Document (JObject ms2))
    \<and> without_role ms1 = without_role ms2
    \<and> list_all string_or_null (role_values ms1)
    \<and> list_all string_or_null (role_values ms2)
    \<longrightarrow> fst (throwBallHandler w r1 s) = fst (throwBallHandler w r2 s)
      \<and> RedisClient (snd (throwBallHandler w r1 s)) = RedisClient (snd (throwBallHandler w r2 s))
      \<and> PermitClient (snd (throwBallHandler w r1 s)) = PermitClient (snd (throwBallHandler w r2 s)))
   \<and> (Body r = Delivers (Document (JObject ms))
    \<and> \<not> list_all string_or_null (role_values ms)
    \<longrightarrow> fst (throwBallHandler newResponseWriter r s)
          = \<lparr>wroteHeader = Some StatusBadRequest, body = [Fprintln ''Invalid request payload'']\<rparr>
      \<and> RedisClient (snd (throwBallHandler newResponseWriter r s)) = RedisClient s
      \<and> PermitClient (snd (throwBallHandler newResponseWriter r s)) = PermitClient s)"
proof (intro conjI impI)
  let ?z = "(zero_BallRequest, None :: json_error option)"
  assume h: "Body r1 = Delivers (Document (JObject ms1))
    \<and> Body r2 = Delivers (Document (JObject ms2))
    \<and> without_role ms1 = without_role ms2
    \<and> list_all string_or_null (role_values ms1)
    \<and> list_all string_or_null (role_values ms2)"
  then have t1: "list_all string_or_null (role_values ms1)"
    and t2: "list_all string_or_null (role_values ms2)"
    and d: "without_role ms1 = without_role ms2"
    by simp_all
  have "required (fold object_member ms1 ?z) = required (fold object_member (without_role ms1) ?z)"
    using t1 by (rule fold_without_role) simp
  moreover
  have "required (fold object_member ms2 ?z) = required (fold object_member (without_role ms2) ?z)"
    using t2 by (rule fold_without_role) simp
  ultimately
  have "required (Unmarshal (Document (JObject ms1)) zero_BallRequest)
      = required (Unmarshal (Document (JObject ms2)) zero_BallRequest)"
    using d by simp
  moreover have "ReadAll (Body r1) = Inr (Document (JObject ms1))"
    and "ReadAll (Body r2) = Inr (Document (JObject ms2))"
    using h by simp_all
  ultimately
  have same: "fst (throwBallHandler w r1 s) = fst (throwBallHandler w r2 s)
       \<and> RedisClient (snd (throwBallHandler w r1 s)) = RedisClient (snd (throwBallHandler w r2 s))
       \<and> PermitClient (snd (throwBallHandler w r1 s)) = PermitClient (snd (throwBallHandler w r2 s))"
    by (intro throw_reads_required)
  from same show "fst (throwBallHandler w r1 s) = fst (throwBallHandler w r2 s)"
    by simp
  from same show "RedisClient (snd (throwBallHandler w r1 s)) = RedisClient (snd (throwBallHandler w r2 s))"
    by simp
  from same show "PermitClient (snd (throwBallHandler w r1 s)) = PermitClient (snd (throwBallHandler w r2 s))"
    by simp
next
  assume h: "Body r = Delivers (Document (JObject ms)) \<and> \<not> list_all string_or_null (role_values ms)"
  then have b: "ReadAll (Body r) = Inr (Document (JObject ms))"
    by simp
  from h have "snd (fold object_member ms (zero_BallRequest, None)) \<noteq> None"
    by (intro fold_ill_typed_role) simp
  then have e: "snd (Unmarshal (Document (JObject ms)) zero_BallRequest) \<noteq> None"
    by simp
  from throw_decode_error [OF b e, of s]
  show "fst (throwBallHandler newResponseWriter r s)
          = \<lparr>wroteHeader = Some StatusBadRequest, body = [Fprintln ''Invalid request payload'']\<rparr>"
    and "RedisClient (snd (throwBallHandler newResponseWriter r s)) = RedisClient s"
    and "PermitClient (snd (throwBallHandler newResponseWriter r s)) = PermitClient s"
    by simp_all
qed

theorem throw_role_matters_only_by_type_witness:
  "without_role (throw_body ''alice'' (JString ''player'') ''throw'' ''cup3'')
     = without_role [(''user_id'', JString ''alice''), (''action'', JString ''throw''), (''target'', JString ''cup3'')]
   \<and> list_all string_or_null (role_values (throw_body ''alice'' (JString ''player'') ''throw'' ''cup3''))
   \<and> fst (throwBallHandler newResponseWriter alice_cup3 (world_with (Some empty_cache) None))
     = fst (throwBallHandler newResponseWriter alice_cup3_no_role (world_with (Some empty_cache) None))
   \<and> RedisClient (snd (throwBallHandler newResponseWriter alice_cup3 (world_with (Some empty_cache) None)))
     = RedisClient (snd (throwBallHandler newResponseWriter alice_cup3_no_role (world_with (Some empty_cache) None)))
   \<and> \<not> list_all string_or_null (role_values (throw_body ''alice'' (JBool True) ''throw'' ''cup3''))
   \<and> fst (throwBallHandler newResponseWriter
            (post_throw (Document (JObject (throw_body ''alice'' (JBool True) ''throw'' ''cup3''))))
            (world_with (Some empty_cache) None))
     = \<lparr>wroteHeader = Some 400, body = [Fprintln ''Invalid request payload'']\<rparr>
   \<and> RedisClient (snd (throwBallHandler newResponseWriter
            (post_throw (Document (JObject (throw_body ''alice'' (JBool True) ''throw'' ''cup3''))))
            (world_with (Some empty_cache) None)))
     = Some empty_cache"
proof -
  let ?ms1 = "throw_body ''alice'' (JString ''player'') ''throw'' ''cup3''"
  let ?ms2 = "[(''user_id'', JString ''alice''), (''action'', JString ''throw''), (''target'', JString ''cup3'')]"
  let ?ms3 = "throw_body ''alice'' (JBool True) ''throw'' ''cup3''"
  let ?s = "world_with (Some empty_cache) None"
  have b1: "Body alice_cup3 = Delivers (Document (JObject ?ms1))"
    by (simp add: alice_cup3_def post_throw_def)
  have b2: "Body alice_cup3_no_role = Delivers (Document (JObject ?ms2))"
    by (simp add: alice_cup3_no_role_def post_throw_def)
  have b3: "Body (post_throw (Document (JObject ?ms3))) = Delivers (Document (JObject ?ms3))"
    by (simp add: post_throw_def)
  have k: "role_member (''role'', v)" "\<not> role_member (''user_id'', v)"
      "\<not> role_member (''action'', v)" "\<not> role_member (''target'', v)" for v
    by (simp_all add: role_member_def field_by_name_def struct_fields_def)
  have d: "without_role ?ms1 = without_role ?ms2"
    by (simp add: without_role_def throw_body_def k)
  have t1: "list_all string_or_null (role_values ?ms1)"
    by (simp add: role_values_def throw_body_def k)
  have t2: "list_all string_or_null (role_values ?ms2)"
    by (simp add: role_values_def k)
  have t3: "\<not> list_all string_or_null (role_values ?ms3)"
    by (simp add: role_values_def throw_body_def k)
  have c: "RedisClient ?s = Some empty_cache"
    by (simp add: world_with_def)
  from throw_role_matters_only_by_type
         [of alice_cup3 ?ms1 alice_cup3_no_role ?ms2 newResponseWriter ?s "post_throw (Document (JObject ?ms3))" ?ms3]
       b1 b2 b3 d t1 t2 t3 c
  show ?thesis
    by simp
qed

text \<open>
  Claim C10, as stated, fails. \<^verbatim>\<open>Role\<close> is declared a \<^verbatim>\<open>string\<close>, so a body whose role is
  the number 5 does not decode and is answered with status 400 and no cache write, while
  the body that differs from it only in having the role \<^verbatim>\<open>"player"\<close> is accepted with
  status 202 and written to the cache.
\<close>

theorem throw_role_type_counterexample:
  "without_role (throw_body ''alice'' (JString ''player'') ''throw'' ''cup3'')
     = without_role (throw_body ''alice'' (JNumber ''5'') ''throw'' ''cup3'')
   \<and> fst (throwBallHandler newResponseWriter alice_cup3 (world_with (Some empty_cache) None))
     = \<lparr>wroteHeader = Some 202, body = [Encode [(''message'', ''Ball thrown!'')]]\<rparr>
   \<and> fst (throwBallHandler newResponseWriter alice_cup3_numeric_role (world_with (Some empty_cache) None))
     = \<lparr>wroteHeader = Some 400, body = [Fprintln ''Invalid request payload'']\<rparr>
   \<and> RedisClient (snd (throwBallHandler newResponseWriter alice_cup3 (world_with (Some empty_cache) None)))
     = Some \<lparr>entries = [''ball:alice'' \<mapsto> (''cup3'', 300000000000)],
             commands = [SET ''ball:alice'' ''cup3'' 300000000000], fault = None\<rparr>
   \<and> RedisClient (snd (throwBallHandler newResponseWriter alice_cup3_numeric_role (world_with (Some empty_cache) None)))
     = Some empty_cache"
proof -
  have k: "role_member (''role'', v)" "\<not> role_member (''user_id'', v)"
      "\<not> role_member (''action'', v)" "\<not> role_member (''target'', v)" for v
    by (simp_all add: role_member_def field_by_name_def struct_fields_def)
  have d: "without_role (throw_body ''alice'' (JString ''player'') ''throw'' ''cup3'')
     = without_role (throw_body ''alice'' (JNumber ''5'') ''throw'' ''cup3'')"
    by (simp add: without_role_def throw_body_def k)
  have m: "Minute * 5 = 300000000000"
    by (simp add: Minute_def Second_def)
  have a: "throwBallHandler newResponseWriter alice_cup3 (world_with (Some empty_cache) None)
     = (\<lparr>wroteHeader = Some 202, body = [Encode [(''message'', ''Ball thrown!'')]]\<rparr>, after_first_throw)"
    by (simp add: throw_defs writer_defs example_defs decode_defs after_first_throw_def m)
  have b: "throwBallHandler newResponseWriter alice_cup3_numeric_role (world_with (Some empty_cache) None)
     = (\<lparr>wroteHeader = Some 400, body = [Fprintln ''Invalid request payload'']\<rparr>,
        \<lparr>RedisClient = Some empty_cache, PermitClient = None,
         logged = [RawRequestBody (Document (JObject (throw_body ''alice'' (JNumber ''5'') ''throw'' ''cup3'')))]\<rparr>)"
    by (simp add: throw_defs writer_defs example_defs decode_defs alice_cup3_numeric_role_def)
  from d a b show ?thesis
    by (simp add: after_first_throw_def)
qed

subsection \<open>Cup authorization\<close>

lemmas cup_defs = cupHandler_def Let_def Check_def Println_def UserBuilder_def WithRoles_def zero_BallRequest_def

lemma triple: "x = (fst x, fst (snd x), snd (snd x))"
  by simp

text \<open>
  Claim C3. A cup authorization request served with a policy client that is not nil: if
  the check returns permitted with no error, the response has status 200 and the JSON body
  with \<^verbatim>\<open>"message":"Access granted!"\<close> and \<^verbatim>\<open>"cup"\<close> equal to the \<^verbatim>\<open>cup_id\<close> path
  parameter; if it returns not permitted with no error, the status is 403; if it returns
  an error, the status is 500. In each case the handler returns.
\<close>

theorem cup_outcomes:
  assumes "PermitClient s = Some c"
      and "Vars r ''cup_id'' = Some cupID"
      and "pdp c \<lparr>subject = \<lparr>Key = [], Roles = [\<lparr>RoleKey = ''user'', Tenant = []\<rparr>]\<rparr>,
                  action = ''beer'', resource = ResourceBuilder cupID\<rparr> = (allowed, err)"
      and "cupHandler newResponseWriter r s = (fin, w', s')"
  shows "(err = None \<and> allowed \<longrightarrow>
            wroteHeader w' = Some StatusOK
          \<and> body w' = [Encode [(''message'', ''Access granted!''), (''cup'', cupID)]])
       \<and> (err = None \<and> \<not> allowed \<longrightarrow> wroteHeader w' = Some StatusForbidden)
       \<and> (err \<noteq> None \<longrightarrow> wroteHeader w' = Some StatusInternalServerError)
       \<and> fin = Returned"
  using assms
  by (auto simp: cup_defs writer_defs split: option.splits)

theorem cup_outcomes_witness:
  "wroteHeader (fst (snd (cupHandler newResponseWriter get_cup3
      (world_with None (Some (policy (True, None))))))) = Some 200
   \<and> body (fst (snd (cupHandler newResponseWriter get_cup3
      (world_with None (Some (policy (True, None)))))))
       = [Encode [(''message'', ''Access granted!''), (''cup'', ''cup3'')]]
   \<and> wroteHeader (fst (snd (cupHandler newResponseWriter get_cup3
      (world_with None (Some (policy (False, None))))))) = Some 403
   \<and> wroteHeader (fst (snd (cupHandler newResponseWriter get_cup3
      (world_with None (Some (policy (False, Some (PermitError ''PDP unreachable'')))))))) = Some 500"
proof -
  let ?q = "\<lparr>subject = \<lparr>Key = [], Roles = [\<lparr>RoleKey = ''user'', Tenant = []\<rparr>]\<rparr>,
             action = ''beer'', resource = ResourceBuilder ''cup3''\<rparr>"
  have c: "PermitClient (world_with None (Some (policy (x, y)))) = Some (policy (x, y))" for x y
    by (simp add: world_with_def)
  have v: "Vars get_cup3 ''cup_id'' = Some ''cup3''"
    by (simp add: get_cup3_def)
  have p: "pdp (policy (x, y)) ?q = (x, y)" for x y
    by (simp add: policy_def)
  from cup_outcomes [where allowed = True and err = None, OF c v p triple]
       cup_outcomes [where allowed = False and err = None, OF c v p triple]
       cup_outcomes [where allowed = False and err = "Some (PermitError ''PDP unreachable'')", OF c v p triple]
  show ?thesis
    by simp
qed

text \<open>
  Claim C6. Whatever the request's headers and body, the one check that the handler sends
  has a subject with the empty user key and exactly the role \<^verbatim>\<open>"user"\<close>, and the action
  \<^verbatim>\<open>"beer"\<close>; only the resource varies, built from the \<^verbatim>\<open>cup_id\<close> path parameter.
\<close>

theorem cup_check_arguments:
  assumes "PermitClient s = Some c"
      and "cupHandler newResponseWriter r s = (fin, w', s')"
  shows "\<exists>c'. PermitClient s' = Some c'
          \<and> checks c' = checks c @
              [\<lparr>subject = \<lparr>Key = [], Roles = [\<lparr>RoleKey = ''user'', Tenant = []\<rparr>]\<rparr>,
                action = ''beer'',
                resource = ResourceBuilder (case Vars r ''cup_id'' of None \<Rightarrow> [] | Some v \<Rightarrow> v)\<rparr>]"
  using assms
  by (auto simp: cup_defs writer_defs split: prod.splits option.splits)

theorem cup_check_arguments_witness:
  "\<exists>c'. PermitClient (snd (snd (cupHandler newResponseWriter get_cup3
            (world_with None (Some (policy (True, None))))))) = Some c'
      \<and> checks c' = [\<lparr>subject = \<lparr>Key = [], Roles = [\<lparr>RoleKey = ''user'', Tenant = []\<rparr>]\<rparr>,
                       action = ''beer'', resource = ResourceBuilder ''cup3''\<rparr>]"
proof -
  have c: "PermitClient (world_with None (Some (policy (True, None)))) = Some (policy (True, None))"
    by (simp add: world_with_def)
  from cup_check_arguments [where r = get_cup3, OF c triple]
  show ?thesis
    by (simp add: policy_def get_cup3_def)
qed

text \<open>
  Claim C5 says that with a nil policy client the handler answers with an internal error
  and stops. The code at \<^verbatim>\<open>GET /cup/cup3\<close> with a nil policy client: it writes the
  status 500 and then goes on to call \<^verbatim>\<open>Check\<close> on the nil handle, which panics.
\<close>

theorem cup_nil_client_falls_through:
  "cupHandler newResponseWriter get_cup3 (world_with None None) =
     (Panicked NilPointerDereference,
      \<lparr>wroteHeader = Some 500, body = [Fprintln ''Permit.io failed initialization'']\<rparr>,
      \<lparr>RedisClient = None, PermitClient = None, logged = [PermitNotInitialized]\<rparr>)"
  by (simp add: cup_defs writer_defs get_cup3_def world_with_def)

end
